theory Spec2Isabelle
  imports Complex_Main "HOL-Library.Multiset"
begin

section \<open>The wagering ledger of bot.py\<close>

text \<open>
  The program is one Python module, \<^verbatim>\<open>bot.py\<close>: three tables (players, games,
  game_players) behind one process-wide SQLAlchemy session, and one chat command per
  ledger operation. The spec's names map to the commands as follows:
  Register is \<^verbatim>\<open>join\<close>, GetBalance is \<^verbatim>\<open>balance\<close>, Credit is \<^verbatim>\<open>deposit\<close>,
  PlaceBet is \<^verbatim>\<open>bet\<close>, Settle is \<^verbatim>\<open>win\<close>, Leaderboard is \<^verbatim>\<open>stats\<close>, AuditDump is
  \<^verbatim>\<open>audit\<close> and AuthGate.Verify is \<^verbatim>\<open>verify_otp\<close>.

  Conventions of the embedding.
  \<^item> A command is a function from its arguments and the database to a reply and the new
    database. What the command reads from outside the program (the token that
    \<^verbatim>\<open>secrets.token_hex\<close> draws, the answer of the wallet RPC, the clock, the order in
    which the database returns the rows of an \<^verbatim>\<open>ORDER BY\<close> query) is an argument.
  \<^item> The reply is the message passed to \<^verbatim>\<open>ctx.send\<close>, kept as a constructor with the
    values the message is formatted from; an exception that leaves the command is the
    reply \<open>Raised\<close>.
  \<^item> Money columns are \<^verbatim>\<open>Float\<close> and the amount of a command is a Python \<^verbatim>\<open>float\<close>. An
    amount is the real number a finite float stands for; \<^verbatim>\<open>+\<close> and \<^verbatim>\<open>-\<close> on amounts are
    the float operations, which round (see below). The infinities and NaN are not
    represented.
  \<^item> A Python \<^verbatim>\<open>str\<close> is modelled by \<open>string\<close>; a character outside ASCII is a
    \<open>char\<close> with its top bit set (as in the UTF-8 encoding of the text).
\<close>

subsection \<open>Python floats\<close>

text \<open>
  A Python \<^verbatim>\<open>float\<close> is an IEEE 754 binary64 number: a finite one is \<open>m * 2 ^ e\<close> with an
  integer \<open>m\<close> of at most 53 bits and \<open>e \<ge> -1074\<close>. The result of \<^verbatim>\<open>a + b\<close> and of \<^verbatim>\<open>a - b\<close>
  is the exact result rounded to the nearest such number, a tie going to the even \<open>m\<close>.
  \<open>float_exponent x\<close> is the exponent \<open>e\<close> of the floats around \<open>x\<close>. The exponent has no
  upper bound here: a result beyond the largest float (about 1.8e308), which Python gives
  as an infinity, is outside the model.
\<close>

definition round_even :: "real \<Rightarrow> int" where
  "round_even x =
     (let f = \<lfloor>x\<rfloor>; r = x - of_int f
      in if r < 1 / 2 then f else if 1 / 2 < r then f + 1 else if even f then f else f + 1)"

definition float_exponent :: "real \<Rightarrow> int" where
  "float_exponent x = max (- 1074) (\<lfloor>log 2 \<bar>x\<bar>\<rfloor> - 52)"

definition binary64 :: "real \<Rightarrow> real" where
  "binary64 x =
     (if x = 0 then 0
      else of_int (round_even (x / 2 powi float_exponent x)) * 2 powi float_exponent x)"

definition float_add :: "real \<Rightarrow> real \<Rightarrow> real" where
  "float_add a b = binary64 (a + b)"

definition float_sub :: "real \<Rightarrow> real \<Rightarrow> real" where
  "float_sub a b = binary64 (a - b)"

text \<open>
  \<^verbatim>\<open>sum\<close> over a sequence of floats adds them from the left, starting from 0, with the
  same rounding addition.
\<close>

definition float_sum :: "real list \<Rightarrow> real" where
  "float_sum xs = foldl float_add 0 xs"

subsection \<open>Tables (bot.py lines 38-56)\<close>

record Player =
  Player_id :: nat
  discord_id :: string
  balance :: real
  otp_secret :: string

record Game =
  Game_id :: nat
  pot :: real
  created_at :: nat

record GamePlayer =
  game_id :: nat
  player_id :: nat
  bet_amount :: real

text \<open>
  The database is the content of the three tables, each in the order the rows were
  inserted.
\<close>

record db =
  players :: "Player list"
  games :: "Game list"
  game_players :: "GamePlayer list"

definition empty_db :: db where
  "empty_db = \<lparr>players = [], games = [], game_players = []\<rparr>"

subsection \<open>Exceptions, replies, the calling context\<close>

datatype exn =
    TypeError
  | IntegrityError
  | WalletError

datatype reply =
    Joined string string
  | AlreadyInGame string
  | YourBalance real
  | NeedJoin
  | DepositSuccessful real string
  | TransactionFailed string
  | InvalidOTP
  | BetPlaced string real real
  | InsufficientBalance
  | WinsPot string real
  | NoActivePot
  | TopPlayers "(string \<times> real) list"
  | AuditReport "(string \<times> real) list"
  | Raised exn

text \<open>
  Of \<^verbatim>\<open>ctx\<close> the commands read \<^verbatim>\<open>str(ctx.author.id)\<close> and \<^verbatim>\<open>ctx.author.name\<close>.
\<close>

record ctx =
  author_id :: string
  author_name :: string

text \<open>
  What \<^verbatim>\<open>bitcoin_rpc.sendtoaddress(address, amount)\<close> does is decided by the wallet
  daemon: it returns a transaction id, raises \<^verbatim>\<open>JSONRPCException\<close> (which \<^verbatim>\<open>deposit\<close>
  catches), or raises something else (which it does not catch).
\<close>

datatype rpc_result =
    RpcOk string
  | RpcJSONRPCException string
  | RpcOtherError

subsection \<open>The authorization check (bot.py lines 63-68)\<close>

text \<open>
  \<^verbatim>\<open>hmac.compare_digest\<close> on two \<^verbatim>\<open>str\<close> arguments raises \<^verbatim>\<open>TypeError\<close> unless both
  are ASCII only; otherwise it returns whether they are equal. Both arguments of
  \<^verbatim>\<open>verify_otp\<close> are always \<^verbatim>\<open>str\<close>: the column is a non-nullable \<^verbatim>\<open>String\<close> and the
  command parameter is annotated \<^verbatim>\<open>str\<close>.
\<close>

definition is_ascii :: "string \<Rightarrow> bool" where
  "is_ascii s = list_all (\<lambda>c. \<not> digit7 c) s"

definition compare_digest :: "string \<Rightarrow> string \<Rightarrow> exn + bool" where
  "compare_digest a b = (if is_ascii a \<and> is_ascii b then Inr (a = b) else Inl TypeError)"

definition verify_otp :: "string \<Rightarrow> string \<Rightarrow> exn + bool" where
  "verify_otp secret otp_code = compare_digest secret otp_code"

text \<open>
  \<^verbatim>\<open>generate_otp_secret\<close> returns \<^verbatim>\<open>secrets.token_hex(16)\<close>: 32 lower-case hexadecimal
  digits, drawn at random. The draw is an argument of \<open>join\<close>; this is what is known of it.
\<close>

definition token_hex16 :: "string \<Rightarrow> bool" where
  "token_hex16 s = (length s = 32 \<and> list_all (\<lambda>c. c \<in> set ''0123456789abcdef'') s)"

subsection \<open>Queries and row updates\<close>

text \<open>\<^verbatim>\<open>session.query(Player).filter_by(discord_id=player_id).first()\<close>\<close>

definition query_player :: "string \<Rightarrow> db \<Rightarrow> Player option" where
  "query_player did st = find (\<lambda>p. discord_id p = did) (players st)"

text \<open>\<^verbatim>\<open>session.query(Game).first()\<close>\<close>

definition query_game_first :: "db \<Rightarrow> Game option" where
  "query_game_first st = (case games st of [] \<Rightarrow> None | g # _ \<Rightarrow> Some g)"

text \<open>The next value of an auto-incremented integer primary key.\<close>

definition next_id :: "nat list \<Rightarrow> nat" where
  "next_id ids = Suc (fold max ids 0)"

text \<open>
  Writing an attribute of a loaded row and committing is an \<^verbatim>\<open>UPDATE\<close> of the row with
  that primary key.
\<close>

definition set_balance :: "nat \<Rightarrow> real \<Rightarrow> Player list \<Rightarrow> Player list" where
  "set_balance pid b ps = map (\<lambda>p. if Player_id p = pid then p\<lparr>balance := b\<rparr> else p) ps"

definition set_pot :: "nat \<Rightarrow> real \<Rightarrow> Game list \<Rightarrow> Game list" where
  "set_pot gid v gs = map (\<lambda>g. if Game_id g = gid then g\<lparr>pot := v\<rparr> else g) gs"

text \<open>
  The primary key of \<^verbatim>\<open>game_players\<close> is the pair (game_id, player_id): inserting a
  second row with the same pair fails.
\<close>

definition has_contribution :: "nat \<Rightarrow> nat \<Rightarrow> GamePlayer list \<Rightarrow> bool" where
  "has_contribution gid pid gps = list_ex (\<lambda>gp. game_id gp = gid \<and> player_id gp = pid) gps"

subsection \<open>The commands (bot.py lines 74-178)\<close>

definition join :: "ctx \<Rightarrow> string \<Rightarrow> db \<Rightarrow> reply \<times> db" where
  "join c tok st =
     (case query_player (author_id c) st of
        None \<Rightarrow>
          (Joined (author_name c) tok,
           st\<lparr>players := players st @
                 [\<lparr>Player_id = next_id (map Player_id (players st)),
                   discord_id = author_id c, balance = 0, otp_secret = tok\<rparr>]\<rparr>)
      | Some _ \<Rightarrow> (AlreadyInGame (author_name c), st))"

definition balance_cmd :: "ctx \<Rightarrow> db \<Rightarrow> reply \<times> db" where
  "balance_cmd c st =
     (case query_player (author_id c) st of
        Some player \<Rightarrow> (YourBalance (balance player), st)
      | None \<Rightarrow> (NeedJoin, st))"

definition deposit :: "ctx \<Rightarrow> string \<Rightarrow> real \<Rightarrow> string \<Rightarrow> rpc_result \<Rightarrow> db \<Rightarrow> reply \<times> db" where
  "deposit c address amount otp_code rpc st =
     (case query_player (author_id c) st of
        Some player \<Rightarrow>
          (case verify_otp (otp_secret player) otp_code of
             Inl e \<Rightarrow> (Raised e, st)
           | Inr True \<Rightarrow>
               (case rpc of
                  RpcOk txid \<Rightarrow>
                    (DepositSuccessful amount txid,
                     st\<lparr>players :=
                          set_balance (Player_id player) (float_add (balance player) amount)
                            (players st)\<rparr>)
                | RpcJSONRPCException e \<Rightarrow> (TransactionFailed e, st)
                | RpcOtherError \<Rightarrow> (Raised WalletError, st))
           | Inr False \<Rightarrow> (InvalidOTP, st))
      | None \<Rightarrow> (NeedJoin, st))"

text \<open>
  Lines 120-124 of \<^verbatim>\<open>bet\<close>: the first game, created and committed when there is none.
\<close>

definition ensure_game :: "nat \<Rightarrow> db \<Rightarrow> Game \<times> db" where
  "ensure_game now st =
     (case query_game_first st of
        Some game \<Rightarrow> (game, st)
      | None \<Rightarrow>
          (let game = \<lparr>Game_id = next_id (map Game_id (games st)), pot = 0, created_at = now\<rparr>
           in (game, st\<lparr>games := games st @ [game]\<rparr>)))"

text \<open>
  Lines 126-132: the three pending writes are flushed by one commit. When the player
  already has a row for this game the insert violates the primary key: the commit raises,
  none of the three writes reaches the database, and no message is sent. (The database
  is followed here, not the session object the failed flush leaves behind.)
\<close>

definition place :: "ctx \<Rightarrow> Player \<Rightarrow> real \<Rightarrow> Game \<Rightarrow> db \<Rightarrow> reply \<times> db" where
  "place c player amount game st =
     (if has_contribution (Game_id game) (Player_id player) (game_players st)
      then (Raised IntegrityError, st)
      else
        (BetPlaced (author_name c) amount (float_add (pot game) amount),
         st\<lparr>players :=
              set_balance (Player_id player) (float_sub (balance player) amount) (players st),
            games := set_pot (Game_id game) (float_add (pot game) amount) (games st),
            game_players := game_players st @
              [\<lparr>game_id = Game_id game, player_id = Player_id player, bet_amount = amount\<rparr>]\<rparr>))"

definition bet :: "ctx \<Rightarrow> real \<Rightarrow> string \<Rightarrow> nat \<Rightarrow> db \<Rightarrow> reply \<times> db" where
  "bet c amount otp_code now st =
     (case query_player (author_id c) st of
        Some player \<Rightarrow>
          (case verify_otp (otp_secret player) otp_code of
             Inl e \<Rightarrow> (Raised e, st)
           | Inr True \<Rightarrow>
               (if balance player \<ge> amount
                then (case ensure_game now st of (game, st1) \<Rightarrow> place c player amount game st1)
                else (InsufficientBalance, st))
           | Inr False \<Rightarrow> (InvalidOTP, st))
      | None \<Rightarrow> (NeedJoin, st))"

definition win :: "ctx \<Rightarrow> db \<Rightarrow> reply \<times> db" where
  "win c st =
     (case query_player (author_id c) st of
        Some player \<Rightarrow>
          (case query_game_first st of
             Some game \<Rightarrow>
               (if pot game > 0
                then (WinsPot (author_name c) (float_add (balance player) (pot game)),
                      st\<lparr>players :=
                           set_balance (Player_id player) (float_add (balance player) (pot game))
                             (players st),
                         games := set_pot (Game_id game) 0 (games st)\<rparr>)
                else (NoActivePot, st))
           | None \<Rightarrow> (NoActivePot, st))
      | None \<Rightarrow> (NeedJoin, st))"

text \<open>
  \<^verbatim>\<open>session.query(Player).order_by(Player.balance.desc())\<close> is answered by the database.
  The query names no second sort key, so the answer is some arrangement of the rows of
  the table in descending order of balance, and which one, among rows of equal balance, is
  the database's choice. The answer is therefore an argument \<open>rows\<close> of \<open>stats\<close>, and
  \<open>order_by_balance_desc ps rows\<close> says that \<open>rows\<close> is an answer the query admits for the
  table \<open>ps\<close>. \<^verbatim>\<open>limit(10)\<close> keeps the first 10 rows of the answer.
\<close>

definition order_by_balance_desc :: "Player list \<Rightarrow> Player list \<Rightarrow> bool" where
  "order_by_balance_desc ps rows =
     (mset rows = mset ps \<and> sorted_wrt (\<lambda>p q. balance q \<le> balance p) rows)"

definition stats :: "ctx \<Rightarrow> Player list \<Rightarrow> db \<Rightarrow> reply \<times> db" where
  "stats c rows st =
     (TopPlayers (map (\<lambda>p. (discord_id p, balance p)) (take 10 rows)), st)"

text \<open>One answer the query admits: the table sorted by a stable sort.\<close>

definition table_order_desc :: "Player list \<Rightarrow> Player list" where
  "table_order_desc ps = sort_key (\<lambda>p. - balance p) ps"

definition audit :: "ctx \<Rightarrow> db \<Rightarrow> reply \<times> db" where
  "audit c st =
     (AuditReport (map (\<lambda>p. (discord_id p, balance p)) (players st)), st)"

subsection \<open>Sequences of commands\<close>

datatype command =
    Join ctx string
  | Balance ctx
  | Deposit ctx string real string rpc_result
  | Bet ctx real string nat
  | Win ctx
  | Stats ctx "Player list"
  | Audit ctx

fun step :: "command \<Rightarrow> db \<Rightarrow> reply \<times> db" where
  "step (Join c tok) st = join c tok st"
| "step (Balance c) st = balance_cmd c st"
| "step (Deposit c address amount otp_code rpc) st = deposit c address amount otp_code rpc st"
| "step (Bet c amount otp_code now) st = bet c amount otp_code now st"
| "step (Win c) st = win c st"
| "step (Stats c rows) st = stats c rows st"
| "step (Audit c) st = audit c st"

fun run :: "command list \<Rightarrow> db \<Rightarrow> db" where
  "run [] st = st"
| "run (cmd # cmds) st = run cmds (snd (step cmd st))"

text \<open>The replies of the commands of a sequence, in order.\<close>

fun run_log :: "command list \<Rightarrow> db \<Rightarrow> reply list" where
  "run_log [] st = []"
| "run_log (cmd # cmds) st = fst (step cmd st) # run_log cmds (snd (step cmd st))"

subsection \<open>Observations of the ledger\<close>

text \<open>
  The pot \<^verbatim>\<open>bet\<close> and \<^verbatim>\<open>win\<close> work on is the pot of the first game; with no game there
  is no pot yet, which counts as 0. The contribution records of a game are the rows of
  \<^verbatim>\<open>game_players\<close> with its id.
\<close>

definition current_pot :: "db \<Rightarrow> real" where
  "current_pot st = (case query_game_first st of None \<Rightarrow> 0 | Some game \<Rightarrow> pot game)"

definition contributions :: "nat \<Rightarrow> GamePlayer list \<Rightarrow> GamePlayer list" where
  "contributions gid gps = filter (\<lambda>gp. game_id gp = gid) gps"

definition current_contributions :: "db \<Rightarrow> GamePlayer list" where
  "current_contributions st =
     (case query_game_first st of
        None \<Rightarrow> []
      | Some game \<Rightarrow> contributions (Game_id game) (game_players st))"

definition balance_of :: "string \<Rightarrow> db \<Rightarrow> real option" where
  "balance_of did st = map_option balance (query_player did st)"


definition balances_nonneg :: "db \<Rightarrow> bool" where
  "balances_nonneg st = list_all (\<lambda>p. 0 \<le> balance p) (players st)"

definition pots_nonneg :: "db \<Rightarrow> bool" where
  "pots_nonneg st = list_all (\<lambda>g. 0 \<le> pot g) (games st)"

definition pot_matches :: "db \<Rightarrow> bool" where
  "pot_matches st =
     list_all (\<lambda>g. pot g = float_sum (map bet_amount (contributions (Game_id g) (game_players st))))
       (games st)"

text \<open>
  The constraints the schema declares: primary keys are unique, and the game of a
  contribution record exists (\<^verbatim>\<open>ForeignKey('games.id')\<close>).
\<close>

definition pk_ok :: "db \<Rightarrow> bool" where
  "pk_ok st = (distinct (map Player_id (players st)) \<and> distinct (map Game_id (games st)))"

definition fk_ok :: "db \<Rightarrow> bool" where
  "fk_ok st = list_all (\<lambda>gp. game_id gp \<in> set (map Game_id (games st))) (game_players st)"

text \<open>Conditions on the replies of a sequence.\<close>

fun credit_nonneg :: "reply \<Rightarrow> bool" where
  "credit_nonneg (DepositSuccessful amount txid) = (0 \<le> amount)"
| "credit_nonneg r = True"



subsection \<open>Concrete inputs\<close>

definition alice :: ctx where
  "alice = \<lparr>author_id = ''1001'', author_name = ''alice''\<rparr>"

definition bob :: ctx where
  "bob = \<lparr>author_id = ''1002'', author_name = ''bob''\<rparr>"

definition carol :: ctx where
  "carol = \<lparr>author_id = ''1003'', author_name = ''carol''\<rparr>"

definition secret_a :: string where
  "secret_a = ''0123456789abcdef0123456789abcdef''"

definition secret_b :: string where
  "secret_b = ''fedcba9876543210fedcba9876543210''"

definition secret_c :: string where
  "secret_c = ''00112233445566778899aabbccddeeff''"

text \<open>Alice alone, registered, with a balance of 3 and no game yet.\<close>

definition alice_row :: Player where
  "alice_row = \<lparr>Player_id = 1, discord_id = ''1001'', balance = 3, otp_secret = secret_a\<rparr>"

definition db_alice :: db where
  "db_alice = \<lparr>players = [alice_row], games = [], game_players = []\<rparr>"

text \<open>Alice with 3 and bob with 7, both registered, no game yet.\<close>

definition bob_row :: Player where
  "bob_row = \<lparr>Player_id = 2, discord_id = ''1002'', balance = 7, otp_secret = secret_b\<rparr>"

definition db_alice_bob :: db where
  "db_alice_bob = \<lparr>players = [alice_row, bob_row], games = [], game_players = []\<rparr>"

text \<open>The same database after alice has bet 2, and after she has then claimed the pot.\<close>

definition db_bet :: db where
  "db_bet = \<lparr>players = [alice_row\<lparr>balance := 1\<rparr>],
             games = [\<lparr>Game_id = 1, pot = 2, created_at = 0\<rparr>],
             game_players = [\<lparr>game_id = 1, player_id = 1, bet_amount = 2\<rparr>]\<rparr>"

definition db_won :: db where
  "db_won = \<lparr>players = [alice_row\<lparr>balance := 3\<rparr>],
             games = [\<lparr>Game_id = 1, pot = 0, created_at = 0\<rparr>],
             game_players = [\<lparr>game_id = 1, player_id = 1, bet_amount = 2\<rparr>]\<rparr>"

text \<open>
  The float that the literal \<^verbatim>\<open>0.01\<close> denotes is \<open>5764607523034235 / 2 ^ 59\<close>; twice and
  four times it are the floats of \<^verbatim>\<open>0.02\<close> and \<^verbatim>\<open>0.04\<close>. Alice holds 0.02, bob holds
  nothing after betting 0.04, which is the pot.
\<close>

definition cent :: real where
  "cent = 5764607523034235 / 576460752303423488"

definition db_cents :: db where
  "db_cents =
     \<lparr>players = [\<lparr>Player_id = 1, discord_id = ''1001'', balance = 2 * cent, otp_secret = secret_a\<rparr>,
                 \<lparr>Player_id = 2, discord_id = ''1002'', balance = 0, otp_secret = secret_b\<rparr>],
      games = [\<lparr>Game_id = 1, pot = 4 * cent, created_at = 0\<rparr>],
      game_players = [\<lparr>game_id = 1, player_id = 2, bet_amount = 4 * cent\<rparr>]\<rparr>"



text \<open>
  Eleven registered players with distinct balances, in the order of their registration,
  and no game.
\<close>

definition player_row :: "nat \<Rightarrow> string \<Rightarrow> real \<Rightarrow> Player" where
  "player_row i did b = \<lparr>Player_id = i, discord_id = did, balance = b, otp_secret = secret_c\<rparr>"

definition eleven_players :: "Player list" where
  "eleven_players =
     [player_row 1 ''2001'' 5, player_row 2 ''2002'' 3, player_row 3 ''2003'' 9,
      player_row 4 ''2004'' 1, player_row 5 ''2005'' 7, player_row 6 ''2006'' 11,
      player_row 7 ''2007'' 2, player_row 8 ''2008'' 8, player_row 9 ''2009'' 4,
      player_row 10 ''2010'' 10, player_row 11 ''2011'' 6]"

definition db_eleven :: db where
  "db_eleven = \<lparr>players = eleven_players, games = [], game_players = []\<rparr>"

text \<open>Bob registers before alice; neither has been credited.\<close>

definition bob_new :: Player where
  "bob_new = \<lparr>Player_id = 1, discord_id = ''1002'', balance = 0, otp_secret = secret_b\<rparr>"

definition alice_new :: Player where
  "alice_new = \<lparr>Player_id = 2, discord_id = ''1001'', balance = 0, otp_secret = secret_a\<rparr>"

definition db_tie :: db where
  "db_tie = run [Join bob secret_b, Join alice secret_a] empty_db"


definition settle_cmds :: "command list" where
  "settle_cmds = [Join alice secret_a, Deposit alice ''addr'' 10 secret_a (RpcOk ''tx1''),
                  Bet alice 4 secret_a 0, Win alice]"

section \<open>Properties\<close>

subsection \<open>Rounding\<close>

text \<open>
  A rounded result is not negative when the exact one is not; an integer below \<open>2 ^ 53\<close>
  in absolute value is a float, so rounding leaves it as it is; and where the binary
  exponent of \<open>x\<close> is known, \<open>binary64 x\<close> is computed by \<open>binary64_eval\<close>.
\<close>

lemma round_even_of_int [simp]: "round_even (of_int i) = i"
  by (simp add: round_even_def)

lemma round_even_nonneg: "0 \<le> x \<Longrightarrow> 0 \<le> round_even x"
  by (auto simp: round_even_def Let_def)

lemma binary64_nonneg: "0 \<le> x \<Longrightarrow> 0 \<le> binary64 x"
  by (simp add: binary64_def round_even_nonneg)

lemma float_exponent_eq:
  assumes "2 powi k \<le> \<bar>x\<bar>" and "\<bar>x\<bar> < 2 powi (k + 1)"
  shows "float_exponent x = max (- 1074) (k - 52)"
proof -
  have pos: "0 < \<bar>x\<bar>"
    using assms(1) by (smt (verit) zero_less_power_int)
  have a: "(2::real) powr real_of_int k = 2 powi k"
    by (simp add: powr_real_of_int')
  have b: "(2::real) powr (real_of_int k + 1) = 2 powi (k + 1)"
    using powr_real_of_int' [of "2::real" "k + 1"] by simp
  have "\<lfloor>log 2 \<bar>x\<bar>\<rfloor> = k"
    using assms pos by (simp add: floor_log_eq_powr_iff a b)
  then show ?thesis by (simp add: float_exponent_def)
qed

lemma binary64_eval:
  assumes "2 powi k \<le> \<bar>x\<bar>" and "\<bar>x\<bar> < 2 powi (k + 1)" and "e = max (- 1074) (k - 52)"
  shows "binary64 x = of_int (round_even (x / 2 powi e)) * 2 powi e"
proof -
  have "x \<noteq> 0"
    using assms(1) by (smt (verit) zero_less_power_int)
  then show ?thesis
    by (simp add: binary64_def float_exponent_eq [OF assms(1,2)] assms(3))
qed

lemma binary64_of_int:
  assumes "\<bar>n\<bar> < 2 ^ 53"
  shows "binary64 (of_int n) = of_int n"
proof (cases "n = 0")
  case True
  then show ?thesis by (simp add: binary64_def)
next
  case False
  define a where "a = \<bar>real_of_int n\<bar>"
  have a1: "1 \<le> a" and a2: "a < 2 ^ 53"
    using False assms by (auto simp: a_def)
  define k where "k = \<lfloor>log 2 a\<rfloor>"
  have "0 \<le> log 2 a"
    using a1 by simp
  then have k0: "0 \<le> k" by (simp add: k_def)
  have "log 2 a < 53"
    using a1 a2 by (simp add: log_less_iff)
  then have k52: "k \<le> 52"
    unfolding k_def by (simp add: floor_less_iff flip: zle_add1_eq_le)
  define j where "j = nat (52 - k)"
  have e: "float_exponent (of_int n) = - int j"
    using k0 k52 by (simp add: float_exponent_def k_def [symmetric] a_def [symmetric] j_def)
  have q: "real_of_int n / 2 powi (- int j) = of_int (n * 2 ^ j)"
    by (simp add: power_int_minus field_simps)
  have "binary64 (of_int n) = of_int (round_even (of_int (n * 2 ^ j))) * 2 powi (- int j)"
    using False unfolding binary64_def e q by simp
  also have "\<dots> = of_int (n * 2 ^ j) * 2 powi (- int j)"
    by (simp only: round_even_of_int)
  also have "\<dots> = of_int n"
    by (simp add: power_int_minus)
  finally show ?thesis .
qed

lemma binary64_numeral [simp]:
  "numeral w < (9007199254740992::int) \<Longrightarrow> binary64 (numeral w) = numeral w"
  "numeral w < (9007199254740992::int) \<Longrightarrow> binary64 (- numeral w) = - numeral w"
  "binary64 0 = 0" "binary64 1 = 1"
  using binary64_of_int [of "numeral w"] binary64_of_int [of "- numeral w"]
    binary64_of_int [of 0] binary64_of_int [of 1]
  by simp_all

lemma float_add_nonneg: "0 \<le> a \<Longrightarrow> 0 \<le> b \<Longrightarrow> 0 \<le> float_add a b"
  by (simp add: float_add_def binary64_nonneg)

lemma float_sub_nonneg: "b \<le> a \<Longrightarrow> 0 \<le> float_sub a b"
  by (simp add: float_sub_def binary64_nonneg)


subsection \<open>Evaluating the commands on the concrete inputs\<close>

lemmas concrete_defs = alice_def bob_def carol_def secret_a_def secret_b_def secret_c_def
  alice_row_def bob_row_def db_alice_def db_alice_bob_def db_bet_def db_won_def empty_db_def

lemmas command_defs = join_def balance_cmd_def deposit_def bet_def win_def ensure_game_def place_def
  query_player_def query_game_first_def next_id_def set_balance_def set_pot_def has_contribution_def
  verify_otp_def compare_digest_def is_ascii_def Let_def float_add_def float_sub_def



subsection \<open>The authorization check\<close>

lemma verify_otp_ascii:
  "is_ascii secret \<Longrightarrow> is_ascii otp_code \<Longrightarrow> verify_otp secret otp_code = Inr (secret = otp_code)"
  by (simp add: verify_otp_def compare_digest_def)

lemma verify_otp_true_iff:
  "verify_otp secret otp_code = Inr True \<longleftrightarrow> is_ascii secret \<and> is_ascii otp_code \<and> secret = otp_code"
  by (auto simp: verify_otp_def compare_digest_def)

lemma hex_digit_ascii: "c \<in> set ''0123456789abcdef'' \<Longrightarrow> \<not> digit7 c"
  by simp (elim disjE, simp_all)

lemma token_hex16_ascii: "token_hex16 s \<Longrightarrow> is_ascii s"
  unfolding token_hex16_def is_ascii_def list_all_iff using hex_digit_ascii by blast

lemma verify_otp_token: "token_hex16 s \<Longrightarrow> verify_otp s s = Inr True"
  by (simp add: verify_otp_ascii token_hex16_ascii)

lemma verify_secret_a: "verify_otp secret_a secret_a = Inr True"
  by (simp add: secret_a_def verify_otp_def compare_digest_def is_ascii_def)

text \<open>
  C5. The claim: Verify returns true exactly when the two values are equal and never
  raises, a malformed code giving false. On the code the comparison raises for a submitted
  code that is not ASCII: for the two bytes of a lower-case e with an acute accent,
  \<^verbatim>\<open>verify_otp\<close> does not return false, \<^verbatim>\<open>hmac.compare_digest\<close> raises \<^verbatim>\<open>TypeError\<close>.
\<close>

theorem verify_otp_raises_on_non_ascii:
  "verify_otp ''0123456789abcdef0123456789abcdef'' [CHR 0xC3, CHR 0xA9] = Inl TypeError"
  by (simp add: verify_otp_def compare_digest_def is_ascii_def)

subsection \<open>Betting more than the balance\<close>

text \<open>
  C6. For a registered player and a valid authorization code, a bet of an amount
  strictly greater than the player's balance is answered with "Insufficient balance." and
  changes nothing: the database is the same, so the balance and the pot are.
\<close>

theorem bet_insufficient_balance:
  assumes "query_player (author_id c) st = Some player"
    and "verify_otp (otp_secret player) otp_code = Inr True"
    and "balance player < amount"
  shows "bet c amount otp_code now st = (InsufficientBalance, st)
     \<and> balance_of (author_id c) (snd (bet c amount otp_code now st)) = Some (balance player)
     \<and> current_pot (snd (bet c amount otp_code now st)) = current_pot st"
  using assms by (simp add: bet_def balance_of_def)

theorem bet_insufficient_balance_witness:
  "query_player (author_id alice) db_alice = Some alice_row
     \<and> verify_otp (otp_secret alice_row) secret_a = Inr True
     \<and> balance alice_row < 5
     \<and> bet alice 5 secret_a 0 db_alice = (InsufficientBalance, db_alice)
     \<and> balance_of (author_id alice) (snd (bet alice 5 secret_a 0 db_alice)) = Some 3
     \<and> current_pot (snd (bet alice 5 secret_a 0 db_alice)) = 0"
proof -
  have q: "query_player (author_id alice) db_alice = Some alice_row"
    by (simp add: query_player_def alice_def db_alice_def alice_row_def)
  have v: "verify_otp (otp_secret alice_row) secret_a = Inr True"
    by (simp add: alice_row_def verify_secret_a)
  have b: "balance alice_row < 5"
    by (simp add: alice_row_def)
  have p: "current_pot db_alice = 0"
    by (simp add: current_pot_def query_game_first_def db_alice_def)
  have r: "balance alice_row = 3"
    by (simp add: alice_row_def)
  from bet_insufficient_balance [OF q v b, of 0] q v b p r show ?thesis
    by (simp add: balance_of_def)
qed

subsection \<open>Looking a player up after a write\<close>

lemma find_append_single:
  "find P (xs @ [x]) = (case find P xs of Some y \<Rightarrow> Some y | None \<Rightarrow> if P x then Some x else None)"
  by (induction xs) auto

lemma find_set_balance:
  "find (\<lambda>p. discord_id p = did) ps = Some p \<Longrightarrow>
   find (\<lambda>p. discord_id p = did) (set_balance (Player_id p) b ps) = Some (p\<lparr>balance := b\<rparr>)"
  by (induction ps) (auto simp: set_balance_def)

lemma query_player_set_balance:
  "query_player did st = Some p \<Longrightarrow>
   query_player did (st\<lparr>players := set_balance (Player_id p) b (players st)\<rparr>) = Some (p\<lparr>balance := b\<rparr>)"
  by (simp add: query_player_def find_set_balance)

lemma query_player_other_tables [simp]:
  "query_player did (st\<lparr>games := gs\<rparr>) = query_player did st"
  "query_player did (st\<lparr>game_players := gps\<rparr>) = query_player did st"
  by (simp_all add: query_player_def)

lemma query_player_join:
  "query_player (author_id c) st = None \<Longrightarrow>
   query_player (author_id c) (snd (join c tok st)) =
     Some \<lparr>Player_id = next_id (map Player_id (players st)), discord_id = author_id c,
           balance = 0, otp_secret = tok\<rparr>"
  by (simp add: join_def query_player_def find_append_single)

lemma join_then_balance:
  "query_player (author_id c) st = None \<Longrightarrow>
   fst (balance_cmd c (snd (join c tok st))) = YourBalance 0"
  by (simp add: balance_cmd_def query_player_join)

lemma deposit_then_balance:
  assumes "query_player (author_id c) st = Some player"
    and "verify_otp (otp_secret player) otp_code = Inr True"
  shows "fst (balance_cmd c (snd (deposit c address amount otp_code (RpcOk txid) st)))
           = YourBalance (float_add (balance player) amount)"
  using assms by (simp add: deposit_def balance_cmd_def query_player_set_balance)

subsection \<open>Register, read, credit, read\<close>

text \<open>
  C8, as amended. On an identity that has no player row yet, \<^verbatim>\<open>join\<close> followed by
  \<^verbatim>\<open>balance\<close> reads 0. For a registered player with a valid code, a \<^verbatim>\<open>deposit\<close> of 5 whose
  wallet call returns a transaction id is accepted, and \<^verbatim>\<open>balance\<close> then reads the float
  sum of the earlier balance and 5. For the player just registered, with the secret that
  \<^verbatim>\<open>join\<close> generated as the code, that is 5.
\<close>

theorem register_read_credit_read:
  "(query_player (author_id c) st = None \<longrightarrow>
      fst (join c tok st) = Joined (author_name c) tok
    \<and> fst (balance_cmd c (snd (join c tok st))) = YourBalance 0)
   \<and> (query_player (author_id c) st = Some player
        \<and> verify_otp (otp_secret player) otp_code = Inr True \<longrightarrow>
      fst (deposit c address 5 otp_code (RpcOk txid) st) = DepositSuccessful 5 txid
    \<and> fst (balance_cmd c (snd (deposit c address 5 otp_code (RpcOk txid) st)))
          = YourBalance (float_add (balance player) 5))
   \<and> (query_player (author_id c) st = None \<and> token_hex16 tok \<longrightarrow>
      fst (deposit c address 5 tok (RpcOk txid) (snd (join c tok st))) = DepositSuccessful 5 txid
    \<and> fst (balance_cmd c (snd (deposit c address 5 tok (RpcOk txid) (snd (join c tok st)))))
          = YourBalance 5)"
proof (intro conjI impI)
  assume fresh: "query_player (author_id c) st = None"
  show "fst (join c tok st) = Joined (author_name c) tok"
    using fresh by (simp add: join_def)
  show "fst (balance_cmd c (snd (join c tok st))) = YourBalance 0"
    using fresh by (rule join_then_balance)
next
  assume "query_player (author_id c) st = Some player
      \<and> verify_otp (otp_secret player) otp_code = Inr True"
  then have q: "query_player (author_id c) st = Some player"
    and v: "verify_otp (otp_secret player) otp_code = Inr True"
    by simp_all
  show "fst (deposit c address 5 otp_code (RpcOk txid) st) = DepositSuccessful 5 txid"
    using q v by (simp add: deposit_def)
  show "fst (balance_cmd c (snd (deposit c address 5 otp_code (RpcOk txid) st)))
          = YourBalance (float_add (balance player) 5)"
    using q v by (rule deposit_then_balance)
next
  assume "query_player (author_id c) st = None \<and> token_hex16 tok"
  then have fresh: "query_player (author_id c) st = None" and tok: "token_hex16 tok"
    by simp_all
  let ?st1 = "snd (join c tok st)"
  let ?p = "\<lparr>Player_id = next_id (map Player_id (players st)), discord_id = author_id c,
           balance = 0, otp_secret = tok\<rparr>"
  have q: "query_player (author_id c) ?st1 = Some ?p"
    using fresh by (rule query_player_join)
  have v: "verify_otp (otp_secret ?p) tok = Inr True"
    using tok by (simp add: verify_otp_token)
  show "fst (deposit c address 5 tok (RpcOk txid) ?st1) = DepositSuccessful 5 txid"
    using q v by (simp add: deposit_def)
  show "fst (balance_cmd c (snd (deposit c address 5 tok (RpcOk txid) ?st1))) = YourBalance 5"
    using deposit_then_balance [OF q v, of address 5 txid] by (simp add: float_add_def)
qed

theorem register_read_credit_read_witness:
  "query_player (author_id alice) empty_db = None \<and> token_hex16 secret_a
   \<and> fst (join alice secret_a empty_db) = Joined ''alice'' secret_a
   \<and> fst (balance_cmd alice (snd (join alice secret_a empty_db))) = YourBalance 0
   \<and> fst (deposit alice ''addr'' 5 secret_a (RpcOk ''tx'') (snd (join alice secret_a empty_db)))
         = DepositSuccessful 5 ''tx''
   \<and> fst (balance_cmd alice
         (snd (deposit alice ''addr'' 5 secret_a (RpcOk ''tx'') (snd (join alice secret_a empty_db)))))
         = YourBalance 5
   \<and> query_player (author_id bob) db_alice_bob = Some bob_row
   \<and> verify_otp (otp_secret bob_row) secret_b = Inr True
   \<and> fst (deposit bob ''addr'' 5 secret_b (RpcOk ''tx'') db_alice_bob) = DepositSuccessful 5 ''tx''
   \<and> fst (balance_cmd bob (snd (deposit bob ''addr'' 5 secret_b (RpcOk ''tx'') db_alice_bob)))
         = YourBalance 12"
proof -
  have f: "query_player (author_id alice) empty_db = None"
    by (simp add: query_player_def empty_db_def)
  have t: "token_hex16 secret_a"
    by (simp add: token_hex16_def secret_a_def)
  have n: "author_name alice = ''alice''"
    by (simp add: alice_def)
  have q: "query_player (author_id bob) db_alice_bob = Some bob_row"
    by (simp add: query_player_def concrete_defs)
  have v: "verify_otp (otp_secret bob_row) secret_b = Inr True"
    by (simp add: concrete_defs verify_otp_def compare_digest_def is_ascii_def)
  have b: "float_add (balance bob_row) 5 = 12"
    by (simp add: concrete_defs float_add_def)
  from register_read_credit_read [of alice empty_db secret_a bob_row secret_b "''addr''" "''tx''"]
    register_read_credit_read [of bob db_alice_bob secret_b bob_row secret_b "''addr''" "''tx''"]
    f t n q v b
  show ?thesis by simp
qed

text \<open>
  C8 as stated fails in its second half: alice is registered, holds 3 and has the valid
  code; after her deposit of 5 \<^verbatim>\<open>balance\<close> reads 8, not 5.
\<close>

theorem credit_reads_sum_counterexample:
  "query_player (author_id alice) db_alice = Some alice_row
   \<and> verify_otp (otp_secret alice_row) secret_a = Inr True
   \<and> fst (deposit alice ''addr'' 5 secret_a (RpcOk ''tx'') db_alice) = DepositSuccessful 5 ''tx''
   \<and> fst (balance_cmd alice (snd (deposit alice ''addr'' 5 secret_a (RpcOk ''tx'') db_alice)))
         = YourBalance 8"
  by (simp add: concrete_defs command_defs)

subsection \<open>The leaderboard\<close>

lemma table_order_admitted: "order_by_balance_desc ps (table_order_desc ps)"
proof -
  have "sorted (map (\<lambda>p. - balance p) (sort_key (\<lambda>p. - balance p) ps))"
    by (rule sorted_sort_key)
  then have "sorted_wrt (\<lambda>p q. balance q \<le> balance p) (sort_key (\<lambda>p. - balance p) ps)"
    by (simp add: sorted_map)
  then show ?thesis
    by (simp add: order_by_balance_desc_def table_order_desc_def)
qed

lemma mset_take_drop: "mset (take n xs) + mset (drop n xs) = mset xs"
  by (simp flip: mset_append)

lemma mset_take_subseteq: "mset (take n xs) \<subseteq># mset xs"
  using mset_take_drop [of n xs] by (metis mset_subset_eq_add_left)

lemma mset_minus_take: "mset xs - mset (take n xs) = mset (drop n xs)"
  using mset_take_drop [of n xs] by (metis add_diff_cancel_left')

lemma sorted_wrt_take_drop:
  assumes "sorted_wrt R xs" and "a \<in> set (take n xs)" and "b \<in> set (drop n xs)"
  shows "R a b"
proof -
  have "sorted_wrt R (take n xs @ drop n xs)"
    using assms(1) by simp
  then show ?thesis
    using assms(2,3) unfolding sorted_wrt_append by blast
qed

lemma admitted_length:
  assumes "order_by_balance_desc ps rows"
  shows "length rows = length ps"
  using assms mset_eq_length by (auto simp: order_by_balance_desc_def)

lemma admitted_distinct:
  assumes "order_by_balance_desc ps rows" and "distinct (map Player_id ps)"
  shows "distinct (map Player_id (take n rows))"
proof -
  have "mset rows = mset ps"
    using assms(1) by (simp add: order_by_balance_desc_def)
  then have "image_mset Player_id (mset rows) = image_mset Player_id (mset ps)"
    by (rule arg_cong)
  then have "mset (map Player_id rows) = mset (map Player_id ps)"
    by simp
  then have "distinct (map Player_id rows)"
    using assms(2) by (metis mset_eq_imp_distinct_iff)
  then show ?thesis
    by (simp add: take_map [symmetric] del: distinct_map)
qed

text \<open>
  C7, as amended. \<^verbatim>\<open>stats\<close> takes no limit. Whatever answer the database gives to the
  query, the reply lists the first 10 rows of it and the database is unchanged. The listed
  rows are \<open>min 10 n\<close> rows of the \<open>n\<close> rows of the table, each at most as often as it is in
  the table, and all of them when there are at most 10; they are in descending order of
  balance; every row left out has a balance at most that of every listed row; and when
  the primary keys are unique, the listed rows are distinct players. Nothing orders
  players of equal balance by identity.
\<close>

theorem stats_first_ten:
  assumes "order_by_balance_desc (players st) rows"
  shows "stats c rows st = (TopPlayers (map (\<lambda>p. (discord_id p, balance p)) (take 10 rows)), st)
   \<and> length (take 10 rows) = min 10 (length (players st))
   \<and> mset (take 10 rows) \<subseteq># mset (players st)
   \<and> (length (players st) \<le> 10 \<longrightarrow> mset (take 10 rows) = mset (players st))
   \<and> sorted_wrt (\<lambda>p q. balance q \<le> balance p) (take 10 rows)
   \<and> (\<forall>p \<in># mset (take 10 rows). \<forall>q \<in># mset (players st) - mset (take 10 rows).
         balance q \<le> balance p)
   \<and> (pk_ok st \<longrightarrow> distinct (map Player_id (take 10 rows)))"
proof (intro conjI impI ballI)
  have m: "mset rows = mset (players st)"
    and s: "sorted_wrt (\<lambda>p q. balance q \<le> balance p) rows"
    using assms by (simp_all add: order_by_balance_desc_def)
  have l: "length rows = length (players st)"
    using assms by (rule admitted_length)
  show "stats c rows st = (TopPlayers (map (\<lambda>p. (discord_id p, balance p)) (take 10 rows)), st)"
    by (simp add: stats_def)
  show "length (take 10 rows) = min 10 (length (players st))"
    using l by (simp add: min.commute)
  show "mset (take 10 rows) \<subseteq># mset (players st)"
    using mset_take_subseteq [of 10 rows] m by simp
  show "sorted_wrt (\<lambda>p q. balance q \<le> balance p) (take 10 rows)"
    using s by (rule sorted_wrt_take)
  {
    assume "length (players st) \<le> 10"
    then show "mset (take 10 rows) = mset (players st)"
      using l m by simp
  }
  {
    fix p q
    assume p: "p \<in># mset (take 10 rows)"
      and q: "q \<in># mset (players st) - mset (take 10 rows)"
    have "q \<in># mset (drop 10 rows)"
      using q m mset_minus_take [of rows 10] by simp
    then show "balance q \<le> balance p"
      using sorted_wrt_take_drop [OF s, of p 10 q] p by simp
  }
  {
    assume "pk_ok st"
    then show "distinct (map Player_id (take 10 rows))"
      using admitted_distinct [OF assms] by (simp add: pk_ok_def)
  }
qed

lemma table_order_eleven:
  "table_order_desc eleven_players =
     [player_row 6 ''2006'' 11, player_row 10 ''2010'' 10, player_row 3 ''2003'' 9,
      player_row 8 ''2008'' 8, player_row 5 ''2005'' 7, player_row 11 ''2011'' 6,
      player_row 1 ''2001'' 5, player_row 9 ''2009'' 4, player_row 2 ''2002'' 3,
      player_row 7 ''2007'' 2, player_row 4 ''2004'' 1]"
  by (simp add: table_order_desc_def eleven_players_def player_row_def)

text \<open>
  Eleven players: the ten richest are listed, richest first, and the player with
  balance 1 is left out.
\<close>

theorem stats_first_ten_witness:
  "order_by_balance_desc (players db_eleven) (table_order_desc eleven_players)
   \<and> stats carol (table_order_desc eleven_players) db_eleven
       = (TopPlayers [(''2006'', 11), (''2010'', 10), (''2003'', 9), (''2008'', 8), (''2005'', 7),
                      (''2011'', 6), (''2001'', 5), (''2009'', 4), (''2002'', 3), (''2007'', 2)],
          db_eleven)
   \<and> length (take 10 (table_order_desc eleven_players)) = 10
   \<and> mset (take 10 (table_order_desc eleven_players)) \<subseteq># mset (players db_eleven)
   \<and> mset (players db_eleven) - mset (take 10 (table_order_desc eleven_players))
       = {#player_row 4 ''2004'' 1#}
   \<and> pk_ok db_eleven
   \<and> distinct (map Player_id (take 10 (table_order_desc eleven_players)))"
proof -
  have a: "order_by_balance_desc (players db_eleven) (table_order_desc eleven_players)"
    using table_order_admitted [of eleven_players] by (simp add: db_eleven_def)
  have k: "pk_ok db_eleven"
    by (simp add: pk_ok_def db_eleven_def eleven_players_def player_row_def)
  have d: "mset (players db_eleven) - mset (take 10 (table_order_desc eleven_players))
       = {#player_row 4 ''2004'' 1#}"
  proof -
    have "mset (players db_eleven) = mset (table_order_desc eleven_players)"
      using a by (simp add: order_by_balance_desc_def)
    then have "mset (players db_eleven) - mset (take 10 (table_order_desc eleven_players))
        = mset (drop 10 (table_order_desc eleven_players))"
      by (simp only: mset_minus_take)
    then show ?thesis
      by (simp add: table_order_eleven)
  qed
  have r: "map (\<lambda>p. (discord_id p, balance p)) (take 10 (table_order_desc eleven_players))
       = [(''2006'', 11), (''2010'', 10), (''2003'', 9), (''2008'', 8), (''2005'', 7),
          (''2011'', 6), (''2001'', 5), (''2009'', 4), (''2002'', 3), (''2007'', 2)]"
    by (simp add: table_order_eleven player_row_def)
  have n: "length (players db_eleven) = 11"
    by (simp add: db_eleven_def eleven_players_def)
  from stats_first_ten [OF a, of carol] a k d r n show ?thesis
    by simp
qed

lemma db_tie_players: "players db_tie = [bob_new, alice_new]"
  by (simp add: db_tie_def bob_new_def alice_new_def join_def query_player_def empty_db_def
      alice_def bob_def next_id_def)

text \<open>
  C7 as stated fails. Bob (identity 1002) registers before alice (identity 1001) and both
  have balance 0. The query admits both orders of the two rows, and for the answer with
  bob first the leaderboard lists 1002 before 1001, which is not ascending identity. The
  reply has two entries, whatever limit the caller has in mind.
\<close>

theorem stats_ties_counterexample:
  "order_by_balance_desc (players db_tie) [bob_new, alice_new]
   \<and> order_by_balance_desc (players db_tie) [alice_new, bob_new]
   \<and> fst (stats alice [bob_new, alice_new] db_tie) = TopPlayers [(''1002'', 0), (''1001'', 0)]
   \<and> table_order_desc (players db_tie) = [bob_new, alice_new]"
  by (simp add: db_tie_players order_by_balance_desc_def stats_def table_order_desc_def
      bob_new_def alice_new_def add_mset_commute)

subsection \<open>What credit, bet and settlement write\<close>


lemma balance_of_other_tables [simp]:
  "balance_of did (st\<lparr>games := gs\<rparr>) = balance_of did st"
  "balance_of did (st\<lparr>game_players := gps\<rparr>) = balance_of did st"
  by (simp_all add: balance_of_def)

lemma current_pot_other_tables [simp]:
  "current_pot (st\<lparr>players := ps\<rparr>) = current_pot st"
  "current_pot (st\<lparr>game_players := gps\<rparr>) = current_pot st"
  by (simp_all add: current_pot_def query_game_first_def)

lemma query_game_first_other_tables [simp]:
  "query_game_first (st\<lparr>players := ps\<rparr>) = query_game_first st"
  "query_game_first (st\<lparr>game_players := gps\<rparr>) = query_game_first st"
  by (simp_all add: query_game_first_def)

lemma query_game_first_set_pot:
  "query_game_first st = Some game \<Longrightarrow>
   query_game_first (st\<lparr>games := set_pot (Game_id game) v (games st)\<rparr>) = Some (game\<lparr>pot := v\<rparr>)"
  by (auto simp: query_game_first_def set_pot_def split: list.splits)



lemma ensure_game_players [simp]:
  "players (snd (ensure_game now st)) = players st"
  "game_players (snd (ensure_game now st)) = game_players st"
  "query_player did (snd (ensure_game now st)) = query_player did st"
  by (auto simp: ensure_game_def Let_def query_player_def split: option.splits)

lemma ensure_game_existing:
  "query_game_first st = Some game \<Longrightarrow> ensure_game now st = (game, st)"
  by (simp add: ensure_game_def)


lemma bet_authorized:
  assumes "query_player (author_id c) st = Some player"
    and "verify_otp (otp_secret player) otp_code = Inr True"
    and "amount \<le> balance player"
  shows "bet c amount otp_code now st =
           place c player amount (fst (ensure_game now st)) (snd (ensure_game now st))"
  using assms by (simp add: bet_def split: prod.splits)



lemma win_effect:
  assumes q: "query_player (author_id c) st = Some player"
    and g: "query_game_first st = Some game" and pos: "0 < pot game"
  shows "fst (win c st) = WinsPot (author_name c) (float_add (balance player) (pot game))
     \<and> balance_of (author_id c) (snd (win c st)) = Some (float_add (balance player) (pot game))
     \<and> current_pot (snd (win c st)) = 0
     \<and> query_game_first (snd (win c st)) = Some (game\<lparr>pot := 0\<rparr>)
     \<and> game_players (snd (win c st)) = game_players st
     \<and> current_contributions (snd (win c st)) = current_contributions st
     \<and> ensure_game now (snd (win c st)) = (game\<lparr>pot := 0\<rparr>, snd (win c st))"
proof -
  let ?st' = "st\<lparr>players := set_balance (Player_id player) (float_add (balance player) (pot game)) (players st),
                 games := set_pot (Game_id game) 0 (games st)\<rparr>"
  have w: "win c st = (WinsPot (author_name c) (float_add (balance player) (pot game)), ?st')"
    using q g pos by (simp add: win_def)
  have g': "query_game_first ?st' = Some (game\<lparr>pot := 0\<rparr>)"
    using g by (auto simp: query_game_first_def set_pot_def split: list.splits)
  have b: "balance_of (author_id c) ?st' = Some (float_add (balance player) (pot game))"
    using q by (simp add: balance_of_def query_player_def find_set_balance)
  show ?thesis
    using g g' b by (simp add: w current_pot_def current_contributions_def ensure_game_def)
qed

subsection \<open>Conservation of value\<close>





lemma query_player_mem: "query_player did st = Some p \<Longrightarrow> p \<in> set (players st)"
  by (auto simp: query_player_def find_Some_iff)















subsection \<open>Amounts that are zero or negative\<close>




subsection \<open>Settlement\<close>

text \<open>
  C4, as amended. For a registered player: when the first game exists and its pot is
  positive, \<^verbatim>\<open>win\<close> stores the float sum of the player's balance and the entire pot as
  the balance and sets the pot to 0; the game row stays the first game, with the same id,
  and its contribution records stay in \<^verbatim>\<open>game_players\<close>, so the next bet finds this game
  and creates none. When there is no game or the pot is 0 (or negative), the reply is
  "There is no active pot." and nothing changes.
\<close>

theorem win_takes_pot_keeps_game:
  assumes q: "query_player (author_id c) st = Some player"
  shows "(query_game_first st = Some game \<and> 0 < pot game \<longrightarrow>
            fst (win c st) = WinsPot (author_name c) (float_add (balance player) (pot game))
          \<and> balance_of (author_id c) (snd (win c st)) = Some (float_add (balance player) (pot game))
          \<and> current_pot (snd (win c st)) = 0
          \<and> query_game_first (snd (win c st)) = Some (game\<lparr>pot := 0\<rparr>)
          \<and> game_players (snd (win c st)) = game_players st
          \<and> current_contributions (snd (win c st)) = current_contributions st
          \<and> ensure_game now (snd (win c st)) = (game\<lparr>pot := 0\<rparr>, snd (win c st)))
       \<and> (current_pot st \<le> 0 \<longrightarrow> win c st = (NoActivePot, st))"
proof (intro conjI impI)
  assume "current_pot st \<le> 0"
  then show "win c st = (NoActivePot, st)"
    using q by (auto simp: win_def current_pot_def split: option.splits)
qed (use win_effect [OF q, of game now] in simp_all)

theorem win_takes_pot_keeps_game_witness:
  "query_player (author_id alice) db_bet = Some (alice_row\<lparr>balance := 1\<rparr>)
   \<and> query_player (author_id alice) db_alice = Some alice_row
   \<and> fst (win alice db_bet) = WinsPot ''alice'' 3
   \<and> balance_of (author_id alice) (snd (win alice db_bet)) = Some 3
   \<and> current_pot (snd (win alice db_bet)) = 0
   \<and> query_game_first (snd (win alice db_bet)) = Some \<lparr>Game_id = 1, pot = 0, created_at = 0\<rparr>
   \<and> game_players (snd (win alice db_bet)) = [\<lparr>game_id = 1, player_id = 1, bet_amount = 2\<rparr>]
   \<and> win alice db_alice = (NoActivePot, db_alice)"
proof -
  have q1: "query_player (author_id alice) db_bet = Some (alice_row\<lparr>balance := 1\<rparr>)"
    and q2: "query_player (author_id alice) db_alice = Some alice_row"
    by (simp_all add: query_player_def concrete_defs)
  have g: "query_game_first db_bet = Some \<lparr>Game_id = 1, pot = 2, created_at = 0\<rparr>"
    "current_pot db_alice = 0" "game_players db_bet = [\<lparr>game_id = 1, player_id = 1, bet_amount = 2\<rparr>]"
    "author_name alice = ''alice''"
    by (simp_all add: query_game_first_def current_pot_def concrete_defs)
  from win_takes_pot_keeps_game [OF q1, of "\<lparr>Game_id = 1, pot = 2, created_at = 0\<rparr>" 0]
    win_takes_pot_keeps_game [OF q2, of "\<lparr>Game_id = 1, pot = 2, created_at = 0\<rparr>" 0] q1 q2 g
  show ?thesis by (simp add: float_add_def)
qed

text \<open>
  C4 as stated fails: alice and bob register and are credited 10 each, alice bets 4 at
  time 0 and claims the pot, then bob bets 6 at time 7. Bob's bet creates no session: it
  lands in game 1, created at time 0, whose contribution records still hold alice's
  settled bet of 4 beside bob's 6.
\<close>

theorem win_keeps_session_counterexample:
  "run [Join alice secret_a, Join bob secret_b,
        Deposit alice ''addr'' 10 secret_a (RpcOk ''tx1''),
        Deposit bob ''addr'' 10 secret_b (RpcOk ''tx2''),
        Bet alice 4 secret_a 0, Win alice, Bet bob 6 secret_b 7] empty_db =
     \<lparr>players = [\<lparr>Player_id = 1, discord_id = ''1001'', balance = 10, otp_secret = secret_a\<rparr>,
                 \<lparr>Player_id = 2, discord_id = ''1002'', balance = 4, otp_secret = secret_b\<rparr>],
      games = [\<lparr>Game_id = 1, pot = 6, created_at = 0\<rparr>],
      game_players = [\<lparr>game_id = 1, player_id = 1, bet_amount = 4\<rparr>,
                      \<lparr>game_id = 1, player_id = 2, bet_amount = 6\<rparr>]\<rparr>"
  by (simp add: concrete_defs command_defs)

subsection \<open>Balances over sequences of commands\<close>

lemma run_log_take: "run_log (take n cmds) st = take n (run_log cmds st)"
  by (induction cmds arbitrary: n st) (auto simp: take_Cons' )

lemma list_all_take: "list_all P xs \<Longrightarrow> list_all P (take n xs)"
  by (auto simp: list_all_iff dest: in_set_takeD)

lemma nonneg_set_balance:
  "list_all (\<lambda>p. 0 \<le> balance p) ps \<Longrightarrow> 0 \<le> b \<Longrightarrow>
   list_all (\<lambda>p. 0 \<le> balance p) (set_balance pid b ps)"
  by (induction ps) (auto simp: set_balance_def)

lemma query_player_nonneg:
  "balances_nonneg st \<Longrightarrow> query_player did st = Some p \<Longrightarrow> 0 \<le> balance p"
  using query_player_mem [of did st p] by (auto simp: balances_nonneg_def list_all_iff)

lemma join_balances_nonneg: "balances_nonneg st \<Longrightarrow> balances_nonneg (snd (join c tok st))"
  by (auto simp: join_def balances_nonneg_def split: option.splits)

lemma deposit_balances_nonneg:
  assumes "balances_nonneg st" and "credit_nonneg (fst (deposit c address amount otp_code rpc st))"
  shows "balances_nonneg (snd (deposit c address amount otp_code rpc st))"
  using assms query_player_nonneg [OF assms(1)]
  by (auto simp: deposit_def balances_nonneg_def intro!: nonneg_set_balance float_add_nonneg
      split: option.splits sum.splits bool.splits rpc_result.splits)

lemma place_balances_nonneg:
  "balances_nonneg st \<Longrightarrow> amount \<le> balance player \<Longrightarrow>
   balances_nonneg (snd (place c player amount game st))"
  by (auto simp: place_def balances_nonneg_def intro!: nonneg_set_balance float_sub_nonneg)

lemma ensure_game_balances_nonneg:
  "balances_nonneg (snd (ensure_game now st)) = balances_nonneg st"
  by (simp add: balances_nonneg_def)

lemma bet_balances_nonneg:
  assumes "balances_nonneg st"
  shows "balances_nonneg (snd (bet c amount otp_code now st))"
proof (cases "\<exists>player. query_player (author_id c) st = Some player
    \<and> verify_otp (otp_secret player) otp_code = Inr True \<and> amount \<le> balance player")
  case True
  then obtain player where q: "query_player (author_id c) st = Some player"
    and v: "verify_otp (otp_secret player) otp_code = Inr True" and le: "amount \<le> balance player"
    by blast
  show ?thesis
    unfolding bet_authorized [OF q v le]
    by (rule place_balances_nonneg) (simp_all add: ensure_game_balances_nonneg assms le)
next
  case False
  then have "snd (bet c amount otp_code now st) = st"
    by (auto simp: bet_def split: option.splits sum.splits bool.splits)
  with assms show ?thesis by simp
qed

lemma win_balances_nonneg:
  assumes "balances_nonneg st"
  shows "balances_nonneg (snd (win c st))"
  using assms query_player_nonneg [OF assms]
  by (auto simp: win_def balances_nonneg_def intro!: nonneg_set_balance float_add_nonneg
      split: option.splits)

lemma step_balances_nonneg:
  "balances_nonneg st \<Longrightarrow> credit_nonneg (fst (step cmd st)) \<Longrightarrow> balances_nonneg (snd (step cmd st))"
  by (cases cmd)
    (simp_all add: join_balances_nonneg deposit_balances_nonneg bet_balances_nonneg
      win_balances_nonneg balance_cmd_def stats_def audit_def split: option.splits)

lemma run_balances_nonneg:
  "balances_nonneg st \<Longrightarrow> list_all credit_nonneg (run_log cmds st) \<Longrightarrow> balances_nonneg (run cmds st)"
  by (induction cmds arbitrary: st) (auto simp: step_balances_nonneg)

text \<open>
  C1, as amended. From a database in which no balance is negative, run any sequence of
  commands in which every deposit that is accepted has an amount of at least 0. Then no
  balance is negative after any number of its commands. Bets and settlements need no
  condition: \<^verbatim>\<open>bet\<close> never takes more than the balance and \<^verbatim>\<open>win\<close> only adds a positive
  pot, and rounding a number that is not negative gives a float that is not negative.
\<close>

theorem balances_stay_nonneg:
  assumes "balances_nonneg st" and "list_all credit_nonneg (run_log cmds st)"
  shows "balances_nonneg (run (take n cmds) st)"
  using assms by (intro run_balances_nonneg) (simp_all add: run_log_take list_all_take)

theorem balances_stay_nonneg_witness:
  "balances_nonneg empty_db
   \<and> list_all credit_nonneg (run_log settle_cmds empty_db)
   \<and> balances_nonneg (run (take 3 settle_cmds) empty_db)
   \<and> map balance (players (run (take 3 settle_cmds) empty_db)) = [6]"
proof -
  have e: "balances_nonneg empty_db"
    by (simp add: balances_nonneg_def empty_db_def)
  have l: "run_log settle_cmds empty_db =
      [Joined ''alice'' secret_a, DepositSuccessful 10 ''tx1'', BetPlaced ''alice'' 4 4, WinsPot ''alice'' 10]"
    by (simp add: settle_cmds_def concrete_defs command_defs)
  have c: "list_all credit_nonneg (run_log settle_cmds empty_db)"
    by (simp add: l)
  have v: "map balance (players (run (take 3 settle_cmds) empty_db)) = [6]"
    by (simp add: settle_cmds_def concrete_defs command_defs)
  from balances_stay_nonneg [OF e c, of 3] e c v show ?thesis by simp
qed

text \<open>
  C1 as stated fails: alice registers and deposits -5 with her valid code; the wallet
  call returns a transaction id, the deposit is accepted, and her balance is -5.
\<close>

theorem negative_credit_counterexample:
  "run_log [Join alice secret_a, Deposit alice ''addr'' (-5) secret_a (RpcOk ''tx'')] empty_db
     = [Joined ''alice'' secret_a, DepositSuccessful (-5) ''tx'']
   \<and> map balance (players
        (run [Join alice secret_a, Deposit alice ''addr'' (-5) secret_a (RpcOk ''tx'')] empty_db)) = [-5]"
  by (simp add: concrete_defs command_defs)

subsection \<open>The pot over sequences of commands\<close>



lemma game_ids_set_pot: "Game_id ` set (set_pot gid v gs) = Game_id ` set gs"
proof -
  have "map Game_id (set_pot gid v gs) = map Game_id gs"
    by (simp add: set_pot_def)
  then have "set (map Game_id (set_pot gid v gs)) = set (map Game_id gs)"
    by simp
  then show ?thesis by simp
qed

lemma fk_ok_place:
  "fk_ok st \<Longrightarrow> game \<in> set (games st) \<Longrightarrow> fk_ok (snd (place c player amount game st))"
  by (auto simp: place_def fk_ok_def list_all_iff game_ids_set_pot)



lemma ensure_game_mem: "fst (ensure_game now st) \<in> set (games (snd (ensure_game now st)))"
  by (auto simp: ensure_game_def query_game_first_def Let_def split: list.splits)

lemma ensure_game_fk: "fk_ok st \<Longrightarrow> fk_ok (snd (ensure_game now st))"
  by (auto simp: ensure_game_def query_game_first_def Let_def fk_ok_def list_all_iff split: list.splits)



lemma bet_cases:
  "(\<exists>player. query_player (author_id c) st = Some player
      \<and> verify_otp (otp_secret player) otp_code = Inr True \<and> amount \<le> balance player
      \<and> bet c amount otp_code now st =
          place c player amount (fst (ensure_game now st)) (snd (ensure_game now st)))
   \<or> (snd (bet c amount otp_code now st) = st
      \<and> fst (bet c amount otp_code now st) \<in> {NeedJoin, InvalidOTP, InsufficientBalance, Raised TypeError})"
  by (auto simp: bet_def verify_otp_def compare_digest_def split: option.splits sum.splits bool.splits prod.splits)

lemma bet_fk: "fk_ok st \<Longrightarrow> fk_ok (snd (bet c amount otp_code now st))"
  using bet_cases [of c st otp_code amount now]
  by (auto intro!: fk_ok_place ensure_game_mem ensure_game_fk)






lemma win_fk: "fk_ok st \<Longrightarrow> fk_ok (snd (win c st))"
  by (auto simp: win_def fk_ok_def list_all_iff game_ids_set_pot split: option.splits)



lemma other_tables_unchanged:
  "games (snd (join c tok st)) = games st" "game_players (snd (join c tok st)) = game_players st"
  "games (snd (deposit c address amount otp_code rpc st)) = games st"
  "game_players (snd (deposit c address amount otp_code rpc st)) = game_players st"
  by (auto simp: join_def deposit_def split: option.splits sum.splits bool.splits rpc_result.splits)

lemma read_only:
  "snd (balance_cmd c st) = st" "snd (stats c rows st) = st" "snd (audit c st) = st"
  by (auto simp: balance_cmd_def stats_def audit_def split: option.splits)

lemma join_deposit_keep:
  "fk_ok (snd (join c tok st)) = fk_ok st"
  "pot_matches (snd (join c tok st)) = pot_matches st"
  "pots_nonneg (snd (join c tok st)) = pots_nonneg st"
  "fk_ok (snd (deposit c address amount otp_code rpc st)) = fk_ok st"
  "pot_matches (snd (deposit c address amount otp_code rpc st)) = pot_matches st"
  "pots_nonneg (snd (deposit c address amount otp_code rpc st)) = pots_nonneg st"
  by (simp_all add: fk_ok_def pot_matches_def pots_nonneg_def other_tables_unchanged)

lemma step_fk: "fk_ok st \<Longrightarrow> fk_ok (snd (step cmd st))"
  by (cases cmd) (simp_all add: bet_fk win_fk read_only join_deposit_keep)









lemma binary64_four_cents: "binary64 (4 * cent) = 4 * cent"
  unfolding cent_def
  by (subst binary64_eval [where k = "- 5" and e = "- 57"])
    (simp_all add: round_even_def power_int_minus)



subsection \<open>The constraints of the schema in every reachable database\<close>

text \<open>
  The hypotheses on the database used above (unique primary keys, the foreign key of
  \<^verbatim>\<open>game_players\<close>) hold in the empty database and are kept by every command, so they
  hold in every database the commands can produce.
\<close>

lemma le_fold_max: "x \<in> set ids \<Longrightarrow> x \<le> fold max ids (a::nat)"
proof (induction ids arbitrary: a)
  case Nil
  then show ?case by simp
next
  case (Cons y ys)
  have mono: "a \<le> fold max ys a" for a :: nat
    by (induction ys arbitrary: a) (auto intro: order_trans [OF max.cobounded2])
  show ?case
  proof (cases "x = y")
    case True
    then show ?thesis
      using mono [of "max y a"] by simp
  next
    case False
    then show ?thesis using Cons by simp
  qed
qed

lemma next_id_fresh: "next_id ids \<notin> set ids"
  using le_fold_max [of "next_id ids" ids 0] by (auto simp: next_id_def)

lemma player_ids_set_balance: "map Player_id (set_balance pid b ps) = map Player_id ps"
  by (simp add: set_balance_def)

lemma game_ids_set_pot_list: "map Game_id (set_pot gid v gs) = map Game_id gs"
  by (simp add: set_pot_def)

lemma join_pk_ok: "pk_ok st \<Longrightarrow> pk_ok (snd (join c tok st))"
  using next_id_fresh [of "map Player_id (players st)"]
  by (auto simp: join_def pk_ok_def split: option.splits)

lemma deposit_pk_ok: "pk_ok st \<Longrightarrow> pk_ok (snd (deposit c address amount otp_code rpc st))"
  by (auto simp: deposit_def pk_ok_def player_ids_set_balance
      split: option.splits sum.splits bool.splits rpc_result.splits)

lemma ensure_game_pk_ok: "pk_ok st \<Longrightarrow> pk_ok (snd (ensure_game now st))"
  by (auto simp: ensure_game_def pk_ok_def Let_def query_game_first_def split: list.splits)

lemma place_pk_ok: "pk_ok st \<Longrightarrow> pk_ok (snd (place c player amount game st))"
  by (simp add: place_def pk_ok_def player_ids_set_balance game_ids_set_pot_list)

lemma bet_pk_ok: "pk_ok st \<Longrightarrow> pk_ok (snd (bet c amount otp_code now st))"
  using bet_cases [of c st otp_code amount now]
  by (auto intro!: place_pk_ok ensure_game_pk_ok)

lemma win_pk_ok: "pk_ok st \<Longrightarrow> pk_ok (snd (win c st))"
  by (auto simp: win_def pk_ok_def player_ids_set_balance game_ids_set_pot_list split: option.splits)

lemma step_pk_ok: "pk_ok st \<Longrightarrow> pk_ok (snd (step cmd st))"
  by (cases cmd) (simp_all add: join_pk_ok deposit_pk_ok bet_pk_ok win_pk_ok read_only)

lemma run_pk_ok: "pk_ok st \<Longrightarrow> pk_ok (run cmds st)"
  by (induction cmds arbitrary: st) (auto simp: step_pk_ok)

lemma reachable_pk_ok: "pk_ok (run cmds empty_db)"
  by (rule run_pk_ok) (simp add: pk_ok_def empty_db_def)

lemma reachable_fk_ok: "fk_ok (run cmds empty_db)"
proof -
  have "fk_ok st \<Longrightarrow> fk_ok (run cmds st)" for st
    by (induction cmds arbitrary: st) (auto simp: step_fk)
  then show ?thesis by (simp add: fk_ok_def empty_db_def)
qed

subsection \<open>The scenario of the spec, and a second bet by the same player\<close>

text \<open>
  The replies of the spec's scenario are as the spec gives them: balances 10 and 10, pot
  4 then 10, and alice's balance 16 after the settlement. A player who bets a second
  time in the same game gets no reply: the insert into \<^verbatim>\<open>game_players\<close> repeats a primary
  key.
\<close>

lemma spec_scenario:
  "run_log [Join alice secret_a, Deposit alice ''addr'' 10 secret_a (RpcOk ''tx1''),
            Join bob secret_b, Deposit bob ''addr'' 10 secret_b (RpcOk ''tx2''),
            Bet alice 4 secret_a 0, Bet bob 6 secret_b 1, Win alice] empty_db =
     [Joined ''alice'' secret_a, DepositSuccessful 10 ''tx1'',
      Joined ''bob'' secret_b, DepositSuccessful 10 ''tx2'',
      BetPlaced ''alice'' 4 4, BetPlaced ''bob'' 6 10, WinsPot ''alice'' 16]"
  by (simp add: concrete_defs command_defs)

lemma second_bet_raises:
  "fst (bet alice 1 secret_a 5 db_bet) = Raised IntegrityError"
  by (simp add: concrete_defs command_defs)

text \<open>
  The database of the example with amounts in cents is one the commands produce: alice
  and bob register, are credited 0.02 and 0.04, and bob bets his 0.04.
\<close>

lemma binary64_two_cents: "binary64 (2 * cent) = 2 * cent"
  unfolding cent_def
  by (subst binary64_eval [where k = "- 6" and e = "- 58"])
    (simp_all add: round_even_def power_int_minus)

lemma db_cents_reachable:
  "run [Join alice secret_a, Join bob secret_b,
        Deposit alice ''addr'' (2 * cent) secret_a (RpcOk ''tx1''),
        Deposit bob ''addr'' (4 * cent) secret_b (RpcOk ''tx2''),
        Bet bob (4 * cent) secret_b 0] empty_db = db_cents"
  by (simp add: concrete_defs command_defs db_cents_def binary64_two_cents binary64_four_cents)

end
